theory Spec2Isabelle
  imports Main
begin

unbundle bit_operations_syntax

section \<open>The Clifford operator of qiskit.quantum\_info, embedded in HOL\<close>

text \<open>
  The development follows two source files,
  \<^verbatim>\<open>qiskit/quantum_info/operators/symplectic/clifford.py\<close> and
  \<^verbatim>\<open>qiskit/quantum_info/operators/symplectic/clifford_utils.py\<close>.
  Python exceptions are values of the type \<open>error\<close>; a function that can raise returns
  \<open>error + 'a\<close>, with \<open>Inl\<close> for the exception. Python integers are \<open>int\<close>; counts
  that the code only uses as sizes and indices (qubit counts, list positions) are \<open>nat\<close>.
\<close>

datatype error =
    QiskitError
  | NotImplementedError
  | IndexError
  | ValueError
  | TypeError
  | AttributeError

text \<open>Statements run in sequence; the first exception ends the run.\<close>

fun seq :: "('s \<Rightarrow> error + 's) list \<Rightarrow> 's \<Rightarrow> error + 's" where
  "seq [] s = Inr s"
| "seq (f # fs) s = (case f s of Inl e \<Rightarrow> Inl e | Inr s' \<Rightarrow> seq fs s')"

subsection \<open>clifford\_utils.py: the order of the symplectic group\<close>

text \<open>
  Lines 57 to 59 of \<^verbatim>\<open>random_clifford\<close> compute the local variable \<^verbatim>\<open>size\<close>:
  \<^verbatim>\<open>size = pow(2, num_qubits ** 2)\<close> followed by
  \<^verbatim>\<open>for i in range(1, num_qubits+1): size *= pow(4, i) - 1\<close>.
  Python integers do not overflow, so the value is an \<open>int\<close>.
\<close>

definition random_clifford_size :: "nat \<Rightarrow> int" where
  "random_clifford_size num_qubits =
     fold (\<lambda>i sz. sz * (4 ^ i - 1)) [1..<num_qubits + 1] (2 ^ (num_qubits ^ 2))"

subsection \<open>clifford\_utils.py: gate lists of the one- and two-qubit Cliffords\<close>

text \<open>Python's \<^verbatim>\<open>str\<close> on a non-negative integer: its decimal digits.\<close>

fun str :: "nat \<Rightarrow> string" where
  "str n = (if n < 10 then [''0123456789'' ! n]
            else str (n div 10) @ [''0123456789'' ! (n mod 10)])"

declare str.simps [simp del]

text \<open>
  \<^verbatim>\<open>gatelist.append(name + str(qubits[0]))\<close>: the read of \<^verbatim>\<open>qubits[0]\<close> raises
  IndexError on an empty list.
\<close>

definition append1 :: "string \<Rightarrow> nat list \<Rightarrow> string list \<Rightarrow> error + string list" where
  "append1 name qubits gatelist =
     (case qubits of
        [] \<Rightarrow> Inl IndexError
      | q0 # _ \<Rightarrow> Inr (gatelist @ [name @ str q0]))"

text \<open>
  \<^verbatim>\<open>gatelist.append('cx ' + str(qubits[0]) + ' ' + str(qubits[1]))\<close>.
\<close>

definition append2 :: "nat list \<Rightarrow> string list \<Rightarrow> error + string list" where
  "append2 qubits gatelist =
     (case qubits of
        q0 # q1 # _ \<Rightarrow> Inr (gatelist @ [''cx '' @ str q0 @ '' '' @ str q1])
      | _ \<Rightarrow> Inl IndexError)"

text \<open>
  \<^verbatim>\<open>append_gate_list(gate_type, qubits, gate_index, gatelist)\<close> appends to the list in
  place; the model returns the new list. The four \<^verbatim>\<open>if gate_type == ...\<close> tests are
  separate statements, run one after the other, and so are the tests of
  \<^verbatim>\<open>gate_index\<close> inside each. The index is \<^verbatim>\<open>None\<close> in the calls for a cnot.
\<close>

definition append_gate_list ::
  "string \<Rightarrow> nat list \<Rightarrow> int option \<Rightarrow> string list \<Rightarrow> error + string list" where
  "append_gate_list gate_type qubits gate_index gatelist =
     seq [
       (\<lambda>gl. if gate_type = ''pauli'' then
                seq [
                  (\<lambda>gl. if gate_index = Some 1 then append1 ''z '' qubits gl else Inr gl),
                  (\<lambda>gl. if gate_index = Some 2 then append1 ''x '' qubits gl else Inr gl),
                  (\<lambda>gl. if gate_index = Some 3 then append1 ''y '' qubits gl else Inr gl)] gl
              else Inr gl),
       (\<lambda>gl. if gate_type = ''hadamard'' then
                (if gate_index = Some 1 then append1 ''h '' qubits gl else Inr gl)
              else Inr gl),
       (\<lambda>gl. if gate_type = ''rotation'' then
                seq [
                  (\<lambda>gl. if gate_index = Some 1 then append1 ''v '' qubits gl else Inr gl),
                  (\<lambda>gl. if gate_index = Some 2 then append1 ''w '' qubits gl else Inr gl)] gl
              else Inr gl),
       (\<lambda>gl. if gate_type = ''cnot'' then append2 qubits gl else Inr gl)] gatelist"

text \<open>
  \<^verbatim>\<open>clifford1_gates(idx)\<close>. Python's \<^verbatim>\<open>%\<close>, \<^verbatim>\<open>np.mod\<close> and \<^verbatim>\<open>//\<close> with a positive
  divisor are \<open>mod\<close> and \<open>div\<close> on \<open>int\<close>.
\<close>

definition clifford1_gates :: "int \<Rightarrow> error + string list" where
  "clifford1_gates idx =
     (let cannonicalorder = idx mod 24;
          pauli = cannonicalorder mod 4;
          rotation = (cannonicalorder div 4) mod 3;
          hadamard = (cannonicalorder div 12) mod 2
      in seq [
           append_gate_list ''hadamard'' [0] (Some hadamard),
           append_gate_list ''rotation'' [0] (Some rotation),
           append_gate_list ''pauli'' [0] (Some pauli)] [])"

text \<open>\<^verbatim>\<open>clifford2_gates(idx)\<close>, with its four branches on \<^verbatim>\<open>symp\<close> in the source's order.\<close>

definition clifford2_gates :: "int \<Rightarrow> error + string list" where
  "clifford2_gates idx =
     (let cannon = idx mod 11520;
          pauli = cannon mod 16;
          symp = cannon div 16
      in seq [
           (\<lambda>gatelist.
              if symp < 36 then
                (let r0 = symp mod 3;
                     r1 = (symp div 3) mod 3;
                     h0 = (symp div 9) mod 2;
                     h1 = (symp div 18) mod 2
                 in seq [
                      append_gate_list ''hadamard'' [0] (Some h0),
                      append_gate_list ''hadamard'' [1] (Some h1),
                      append_gate_list ''rotation'' [0] (Some r0),
                      append_gate_list ''rotation'' [1] (Some r1)] gatelist)
              else if symp < 360 then
                (let symp = symp - 36;
                     r0 = symp mod 3;
                     r1 = (symp div 3) mod 3;
                     r2 = (symp div 9) mod 3;
                     r3 = (symp div 27) mod 3;
                     h0 = (symp div 81) mod 2;
                     h1 = (symp div 162) mod 2
                 in seq [
                      append_gate_list ''hadamard'' [0] (Some h0),
                      append_gate_list ''hadamard'' [1] (Some h1),
                      append_gate_list ''rotation'' [0] (Some r0),
                      append_gate_list ''rotation'' [1] (Some r1),
                      append_gate_list ''cnot'' [0, 1] None,
                      append_gate_list ''rotation'' [0] (Some r2),
                      append_gate_list ''rotation'' [1] (Some r3)] gatelist)
              else if symp < 684 then
                (let symp = symp - 360;
                     r0 = symp mod 3;
                     r1 = (symp div 3) mod 3;
                     r2 = (symp div 9) mod 3;
                     r3 = (symp div 27) mod 3;
                     h0 = (symp div 81) mod 2;
                     h1 = (symp div 162) mod 2
                 in seq [
                      append_gate_list ''hadamard'' [0] (Some h0),
                      append_gate_list ''hadamard'' [1] (Some h1),
                      append_gate_list ''rotation'' [0] (Some r0),
                      append_gate_list ''rotation'' [1] (Some r1),
                      append_gate_list ''cnot'' [0, 1] None,
                      append_gate_list ''cnot'' [1, 0] None,
                      append_gate_list ''rotation'' [0] (Some r2),
                      append_gate_list ''rotation'' [1] (Some r3)] gatelist)
              else
                (let symp = symp - 684;
                     r0 = symp mod 3;
                     r1 = (symp div 3) mod 3;
                     h0 = (symp div 9) mod 2;
                     h1 = (symp div 18) mod 2
                 in seq [
                      append_gate_list ''hadamard'' [0] (Some h0),
                      append_gate_list ''hadamard'' [1] (Some h1),
                      append_gate_list ''rotation'' [0] (Some r0),
                      append_gate_list ''rotation'' [1] (Some r1),
                      append_gate_list ''cnot'' [0, 1] None,
                      append_gate_list ''cnot'' [1, 0] None,
                      append_gate_list ''cnot'' [0, 1] None] gatelist)),
           append_gate_list ''pauli'' [0] (Some (pauli mod 4)),
           append_gate_list ''pauli'' [1] (Some (pauli div 4))] [])"

text \<open>
  Reading a gate list: the name of an entry is its text before the first blank, and
  \<open>count_cx\<close> counts the entries named \<^verbatim>\<open>cx\<close>.
\<close>

definition gate_name :: "string \<Rightarrow> string" where
  "gate_name g = takeWhile (\<lambda>c. c \<noteq> CHR '' '') g"

definition count_cx :: "string list \<Rightarrow> nat" where
  "count_cx gatelist = length (filter (\<lambda>g. gate_name g = ''cx'') gatelist)"

subsection \<open>The stabilizer table and the store of table objects\<close>

text \<open>
  Modelled from the spec: the class \<^verbatim>\<open>StabilizerTable\<close> (module
  \<^verbatim>\<open>stabilizer_table\<close>) is imported by \<^verbatim>\<open>clifford.py\<close> but is not among the source
  files. The spec describes it as a boolean array of rows, each row holding the X-block
  columns followed by the Z-block columns, with a parallel boolean phase vector.
  The fields are the attributes \<^verbatim>\<open>_array\<close>, \<^verbatim>\<open>_phase\<close> and \<^verbatim>\<open>_n_qubits\<close> that
  \<^verbatim>\<open>clifford.py\<close> reads and writes. A two-dimensional numpy array is the list of its
  rows, all of one length.
\<close>

record StabilizerTable =
  array :: "bool list list"
  phase :: "bool list"
  n_qubits :: nat

text \<open>The number of columns of a two-dimensional array, \<^verbatim>\<open>shape[1]\<close>.\<close>

definition ncols :: "'a list list \<Rightarrow> nat" where
  "ncols a = (case a of [] \<Rightarrow> 0 | r # _ \<Rightarrow> length r)"

text \<open>
  Modelled from the spec: the property \<^verbatim>\<open>size\<close> of the table, read by \<^verbatim>\<open>__init__\<close> as
  \<^verbatim>\<open>self._table.size\<close> and not among the source files: the number of rows.
\<close>

definition table_size :: "StabilizerTable \<Rightarrow> nat" where
  "table_size t = length (array t)"

text \<open>
  Modelled from the spec: the constructor \<^verbatim>\<open>StabilizerTable(data, phase=None)\<close>, which
  is not among the source files. It keeps the array, takes a zero phase when none is
  given, and has half as many qubits as the array has columns.
\<close>

definition StabilizerTable_init :: "bool list list \<Rightarrow> bool list option \<Rightarrow> StabilizerTable" where
  "StabilizerTable_init data ph =
     \<lparr>array = data,
      phase = (case ph of None \<Rightarrow> replicate (length data) False | Some p \<Rightarrow> p),
      n_qubits = ncols data div 2\<rparr>"

text \<open>
  Modelled from the spec: the accessor \<^verbatim>\<open>X\<close> of the table, which is not among the
  source files: the block \<^verbatim>\<open>_array[:, 0:n]\<close> of the X-block columns.
\<close>

definition table_X :: "StabilizerTable \<Rightarrow> bool list list" where
  "table_X t = map (take (n_qubits t)) (array t)"

text \<open>
  Modelled from the spec: the accessor \<^verbatim>\<open>Z\<close> of the table, which is not among the
  source files: the block \<^verbatim>\<open>_array[:, n:2n]\<close> of the Z-block columns.
\<close>

definition table_Z :: "StabilizerTable \<Rightarrow> bool list list" where
  "table_Z t = map (\<lambda>row. take (n_qubits t) (drop (n_qubits t) row)) (array t)"

text \<open>
  Python objects are shared by reference. A Clifford holds a reference to its table
  object, so the table objects live in a store: the list of all tables allocated so far,
  a reference being a position in it. Creating an object appends it.
\<close>

type_synonym ref = nat
type_synonym store = "StabilizerTable list"

definition alloc :: "StabilizerTable \<Rightarrow> store \<Rightarrow> ref \<times> store" where
  "alloc t s = (length s, s @ [t])"

text \<open>\<^verbatim>\<open>np.eye(n, dtype=bool)\<close> and \<^verbatim>\<open>np.zeros(n, dtype=bool)\<close>.\<close>

definition eye :: "nat \<Rightarrow> bool list list" where
  "eye n = map (\<lambda>i. map (\<lambda>j. i = j) [0..<n]) [0..<n]"

definition zeros :: "nat \<Rightarrow> bool list" where
  "zeros n = replicate n False"

subsection \<open>clifford.py: construction\<close>

text \<open>
  A Clifford object: the reference \<^verbatim>\<open>_table\<close>, and the two attributes that
  \<^verbatim>\<open>BaseOperator\<close> keeps, the subsystem dimensions passed to
  \<^verbatim>\<open>super().__init__(dims, dims)\<close> and the optional \<^verbatim>\<open>qargs\<close> (the field \<open>op_qargs\<close>).
\<close>

record Clifford =
  table :: ref
  dims :: "nat list"
  op_qargs :: "nat list option"

text \<open>
  What \<^verbatim>\<open>__init__\<close> reads of a \<^verbatim>\<open>ScalarOp\<close>: the result of \<^verbatim>\<open>is_unitary()\<close>, its
  \<^verbatim>\<open>_input_dims\<close>, and its \<^verbatim>\<open>qargs\<close>. What \<^verbatim>\<open>from_instruction\<close> reads of a circuit
  or instruction: \<^verbatim>\<open>num_qubits\<close>; the gates are for \<^verbatim>\<open>append_gate\<close>.
\<close>

record ScalarOp =
  scalar_is_unitary :: bool
  scalar_input_dims :: "nat list"
  scalar_qargs :: "nat list option"

record Instruction =
  instr_num_qubits :: nat
  instr_gates :: "(string \<times> nat list) list"

text \<open>The argument \<^verbatim>\<open>data\<close> of \<^verbatim>\<open>Clifford(data)\<close>, by the tests \<^verbatim>\<open>__init__\<close> makes on it.\<close>

datatype data =
    DClifford Clifford
  | DScalarOp ScalarOp
  | DInstruction Instruction
  | DArray "bool list list"
  | DTable StabilizerTable

text \<open>
  Lines 51 to 63 of \<^verbatim>\<open>__init__\<close>: the shape of the table at \<open>r\<close> is validated, then
  \<^verbatim>\<open>BaseOperator.__init__\<close> records one dimension 2 for each qubit.
\<close>

definition validate_shape :: "store \<Rightarrow> ref \<Rightarrow> error + Clifford" where
  "validate_shape s r =
     (if table_size (s ! r) \<noteq> 2 * n_qubits (s ! r) then Inl QiskitError
      else Inr \<lparr>table = r, dims = replicate (n_qubits (s ! r)) 2, op_qargs = None\<rparr>)"

text \<open>
  The last branch of \<^verbatim>\<open>__init__\<close>, \<^verbatim>\<open>self._table = StabilizerTable(data)\<close>: a new table
  object is created from the array, or from the array and phase of a table.
\<close>

definition init_new_table :: "store \<Rightarrow> StabilizerTable \<Rightarrow> error + Clifford \<times> store" where
  "init_new_table s t =
     (let (r, s') = alloc t s
      in case validate_shape s' r of
           Inl e \<Rightarrow> Inl e
         | Inr c \<Rightarrow> Inr (c, s'))"

text \<open>
  \<^verbatim>\<open>Clifford.from_instruction\<close>. The function \<^verbatim>\<open>append_gate\<close> (module
  \<^verbatim>\<open>clifford_append_gate\<close>) is not among the source files; it is the parameter \<open>ag\<close>,
  which updates the table of the Clifford in the store or raises.
\<close>

definition from_instruction ::
  "(store \<Rightarrow> Clifford \<Rightarrow> Instruction \<Rightarrow> error + store) \<Rightarrow> store \<Rightarrow> Instruction
     \<Rightarrow> error + Clifford \<times> store" where
  "from_instruction ag s instruction =
     (case init_new_table s (StabilizerTable_init (eye (2 * instr_num_qubits instruction)) None) of
        Inl e \<Rightarrow> Inl e
      | Inr (clifford, s') \<Rightarrow>
          (case ag s' clifford instruction of
             Inl e \<Rightarrow> Inl e
           | Inr s'' \<Rightarrow> Inr (clifford, s'')))"

text \<open>
  \<^verbatim>\<open>Clifford.__init__(self, data)\<close>. The first branch takes the table object of the
  other Clifford itself: the new object refers to the same position of the store.
\<close>

definition Clifford_init ::
  "(store \<Rightarrow> Clifford \<Rightarrow> Instruction \<Rightarrow> error + store) \<Rightarrow> store \<Rightarrow> data
     \<Rightarrow> error + Clifford \<times> store" where
  "Clifford_init ag s d =
     (case d of
        DClifford other \<Rightarrow>
          (case validate_shape s (table other) of
             Inl e \<Rightarrow> Inl e
           | Inr c \<Rightarrow> Inr (c, s))
      | DScalarOp sc \<Rightarrow>
          (if \<not> scalar_is_unitary sc \<or> set (scalar_input_dims sc) \<noteq> {2} then Inl QiskitError
           else init_new_table s
                  (StabilizerTable_init (eye (2 * length (scalar_input_dims sc))) None))
      | DInstruction instruction \<Rightarrow>
          (case from_instruction ag s instruction of
             Inl e \<Rightarrow> Inl e
           | Inr (c0, s') \<Rightarrow>
               (case validate_shape s' (table c0) of
                  Inl e \<Rightarrow> Inl e
                | Inr c \<Rightarrow> Inr (c, s')))
      | DArray a \<Rightarrow> init_new_table s (StabilizerTable_init a None)
      | DTable t \<Rightarrow> init_new_table s (StabilizerTable_init (array t) (Some (phase t))))"

text \<open>The property \<^verbatim>\<open>n_qubits\<close> of a Clifford: \<^verbatim>\<open>self._table._n_qubits\<close>.\<close>

definition clifford_n_qubits :: "store \<Rightarrow> Clifford \<Rightarrow> nat" where
  "clifford_n_qubits s c = n_qubits (s ! table c)"

text \<open>
  \<^verbatim>\<open>reset\<close> assigns new arrays to the attributes \<^verbatim>\<open>_array\<close> and \<^verbatim>\<open>_phase\<close> of the
  table object.
\<close>

definition reset :: "store \<Rightarrow> Clifford \<Rightarrow> store" where
  "reset s c =
     s[table c := (s ! table c)
         \<lparr>array := eye (length (array (s ! table c))),
          phase := zeros (length (phase (s ! table c)))\<rparr>]"

subsection \<open>clifford.py: the validity check\<close>

text \<open>
  \<^verbatim>\<open>_symeye(n)\<close>: the block matrix with two zero blocks on the diagonal and two identity
  blocks off it, as booleans.
\<close>

definition symeye :: "nat \<Rightarrow> bool list list" where
  "symeye n = map (\<lambda>r. zeros n @ r) (eye n) @ map (\<lambda>r. r @ zeros n) (eye n)"

text \<open>
  \<^verbatim>\<open>np.dot\<close> on two boolean matrices. Both operands of the two calls in
  \<^verbatim>\<open>is_unitary\<close> have type bool, and numpy then computes the product with \<open>\<or>\<close> for the
  sum and \<open>\<and>\<close> for the product, giving booleans. Shapes that do not match raise
  ValueError.
\<close>

definition np_dot :: "bool list list \<Rightarrow> bool list list \<Rightarrow> error + bool list list" where
  "np_dot a b =
     (if ncols a \<noteq> length b then Inl ValueError
      else Inr (map (\<lambda>row. map (\<lambda>j. list_ex (\<lambda>k. row ! k \<and> b ! k ! j) [0..<length b])
                              [0..<ncols b]) a))"

text \<open>
  \<^verbatim>\<open>is_unitary\<close>: the product \<^verbatim>\<open>np.dot(cliffdata, np.dot(seye, cliffdata))\<close>, then
  \<^verbatim>\<open>% 2\<close> and \<^verbatim>\<open>.astype(bool)\<close> on each entry, compared with \<^verbatim>\<open>seye\<close> by
  \<^verbatim>\<open>np.array_equal\<close>.
\<close>

definition is_unitary :: "store \<Rightarrow> Clifford \<Rightarrow> error + bool" where
  "is_unitary s c =
     (let nq = clifford_n_qubits s c;
          seye = symeye nq;
          cliffdata = array (s ! table c)
      in case np_dot seye cliffdata of
           Inl e \<Rightarrow> Inl e
         | Inr inner \<Rightarrow>
             (case np_dot cliffdata inner of
                Inl e \<Rightarrow> Inl e
              | Inr outer \<Rightarrow> Inr (map (map (\<lambda>v. (of_bool v :: int) mod 2 \<noteq> 0)) outer = seye)))"

text \<open>
  The check as the specification words it, for comparison, needs the matrix product over
  the field with two elements: an entry is the parity of the number of positions where
  both factors are set.
\<close>

definition gf2_mul :: "bool list list \<Rightarrow> bool list list \<Rightarrow> bool list list" where
  "gf2_mul a b =
     map (\<lambda>row. map (\<lambda>j. odd (length (filter (\<lambda>k. row ! k \<and> b ! k ! j) [0..<length b])))
                  [0..<ncols b]) a"

text \<open>
  \<open>is_symplectic T\<close>: the equation \<open>T \<cdot> \<Omega> \<cdot> T\<^sup>T = \<Omega>\<close> modulo 2, with \<open>\<Omega>\<close> of the size of
  \<open>T\<close>. This is the specification's check, not a function of the source.
\<close>

definition is_symplectic :: "bool list list \<Rightarrow> bool" where
  "is_symplectic T =
     (gf2_mul (gf2_mul T (symeye (length T div 2))) (List.transpose T)
        = symeye (length T div 2))"

subsection \<open>clifford.py: the row sum\<close>

text \<open>
  The function that lines 378 and 379 define under the name \<^verbatim>\<open>_g_AG\<close>. Its \<^verbatim>\<open>def\<close>
  is indented under \<^verbatim>\<open>_rowsum_AG\<close> and stands after the loop: it binds a local name of
  \<^verbatim>\<open>_rowsum_AG\<close> once the loop is over and gives the class no attribute. The claim's
  sign function \<open>g\<close> is the same expression.
\<close>

definition g_AG :: "bool \<Rightarrow> bool \<Rightarrow> bool \<Rightarrow> bool \<Rightarrow> bool" where
  "g_AG x1 z1 x2 z2 \<longleftrightarrow>
     (\<not> x1 \<and> z1 \<and> x2 \<and> \<not> z2) \<or> (x1 \<and> \<not> z1 \<and> x2 \<and> z2) \<or> (x1 \<and> z1 \<and> \<not> x2 \<and> z2)"

text \<open>
  The attribute lookup \<^verbatim>\<open>self._g_AG\<close> of line 373. The body of the class \<^verbatim>\<open>Clifford\<close>
  defines no \<^verbatim>\<open>_g_AG\<close>, and no file of the repository gives its base class one, so
  the lookup raises AttributeError.
\<close>

definition self_g_AG :: "error + (bool \<Rightarrow> bool \<Rightarrow> bool \<Rightarrow> bool \<Rightarrow> bool)" where
  "self_g_AG = Inl AttributeError"

text \<open>
  One pass of the loop \<^verbatim>\<open>for ind in range(nq)\<close> of \<^verbatim>\<open>_rowsum_AG\<close>. A row is the list
  of its X bits, its Z bits and, last, its phase bit. The first statement evaluates
  \<^verbatim>\<open>self._g_AG\<close> before the arguments of the call, so the pass ends there with the
  error of the lookup. The rest of the body is written out as it stands in the source,
  for a lookup that would return a function: the reads of the four bits (IndexError on
  a row too short), the update of \<^verbatim>\<open>phaseout\<close>, the assignment
  \<^verbatim>\<open>rowh[:-1] = np.logical_xor(rowh[:-1], rowi[:-1])\<close> (ValueError on rows of different
  lengths; numpy's broadcasting of a one-entry operand is not modelled), and
  \<^verbatim>\<open>rowh[-1] = phaseout\<close>.
\<close>

definition rowsum_step ::
  "nat \<Rightarrow> bool list \<Rightarrow> nat \<Rightarrow> bool list \<times> bool \<Rightarrow> error + bool list \<times> bool" where
  "rowsum_step nq rowi ind st =
     (let (rowh, phaseout) = st
      in case self_g_AG of
           Inl e \<Rightarrow> Inl e
         | Inr g \<Rightarrow>
             (if length rowh \<le> nq + ind \<or> length rowi \<le> nq + ind then Inl IndexError
              else
                (let phaseout =
                       (phaseout \<noteq> g (rowh ! ind) (rowh ! (nq + ind)) (rowi ! ind) (rowi ! (nq + ind)))
                 in if length rowi \<noteq> length rowh then Inl ValueError
                    else
                      (let rowh = map2 (\<noteq>) (butlast rowh) (butlast rowi) @ [last rowh];
                           rowh = butlast rowh @ [phaseout]
                       in Inr (rowh, phaseout)))))"

text \<open>
  \<^verbatim>\<open>_rowsum_AG(rowh, rowi)\<close> changes \<^verbatim>\<open>rowh\<close> in place; the model returns the new row.
  \<^verbatim>\<open>nq = (len(rowh)-1)//2\<close>, then \<^verbatim>\<open>phaseout = rowh[-1]^rowi[-1]\<close>, where reading
  the last entry of an empty row raises IndexError, then the loop, whose passes run in
  order and stop at the first error. With \<open>nq = 0\<close> the loop has no pass and the row
  is returned as it was.
\<close>

definition rowsum_AG :: "bool list \<Rightarrow> bool list \<Rightarrow> error + bool list" where
  "rowsum_AG rowh rowi =
     (if rowh = [] \<or> rowi = [] then Inl IndexError
      else
        (let nq = (length rowh - 1) div 2;
             phaseout = (last rowh \<noteq> last rowi)
         in case seq (map (rowsum_step nq rowi) [0..<nq]) (rowh, phaseout) of
              Inl e \<Rightarrow> Inl e
            | Inr (rowh', phaseout') \<Rightarrow> Inr rowh'))"

text \<open>
  The row sum as the specification words it, for comparison: the X and Z bits of the
  source row are added to the target row once, and the new phase is the sum of the two
  phases and of \<open>g\<close> on every qubit, computed from the bits the target row had before.
\<close>

definition rowsum_spec :: "bool list \<Rightarrow> bool list \<Rightarrow> bool list" where
  "rowsum_spec rowh rowi =
     (let nq = (length rowh - 1) div 2
      in map2 (\<noteq>) (butlast rowh) (butlast rowi)
         @ [fold (\<lambda>k p. p \<noteq> g_AG (rowh ! k) (rowh ! (nq + k)) (rowi ! k) (rowi ! (nq + k)))
              [0..<nq] (last rowh \<noteq> last rowi)])"

subsection \<open>clifford.py: composition\<close>

text \<open>\<^verbatim>\<open>getattr(other, 'qargs', None)\<close>.\<close>

definition data_qargs :: "data \<Rightarrow> nat list option" where
  "data_qargs d =
     (case d of
        DClifford c \<Rightarrow> op_qargs c
      | DScalarOp sc \<Rightarrow> scalar_qargs sc
      | _ \<Rightarrow> None)"

text \<open>
  Modelled from the spec: \<^verbatim>\<open>BaseOperator._get_compose_dims\<close>, which is not among the
  source files. The spec asks that without qargs both operands have the same qubit
  count, and that operands whose dimensions do not fit the qargs are a validation error.
\<close>

definition get_compose_dims ::
  "Clifford \<Rightarrow> Clifford \<Rightarrow> nat list option \<Rightarrow> bool \<Rightarrow> error + nat list \<times> nat list" where
  "get_compose_dims self other qargs front =
     (case qargs of
        None \<Rightarrow> (if dims other \<noteq> dims self then Inl QiskitError else Inr (dims self, dims self))
      | Some qs \<Rightarrow>
          (if length qs \<noteq> length (dims other) \<or> \<not> list_all (\<lambda>q. q < length (dims self)) qs
           then Inl QiskitError
           else Inr (dims self, dims self)))"

text \<open>
  \<^verbatim>\<open>compose(self, other, qargs=None, front=False)\<close>: the default for \<^verbatim>\<open>qargs\<close>, the
  conversion of \<^verbatim>\<open>other\<close> to a Clifford, the validation of the dimensions, and then the
  statement \<^verbatim>\<open>raise NotImplementedError(...)\<close>. No statement of the method calls
  \<^verbatim>\<open>_compose_clifford\<close> or \<^verbatim>\<open>_compose_subsystem\<close>, the two internal methods that
  build a product tableau with \<^verbatim>\<open>_rowsum_AG\<close>; nothing in the file calls them.
\<close>

definition compose ::
  "(store \<Rightarrow> Clifford \<Rightarrow> Instruction \<Rightarrow> error + store) \<Rightarrow> store \<Rightarrow> Clifford \<Rightarrow> data
     \<Rightarrow> nat list option \<Rightarrow> bool \<Rightarrow> error + Clifford \<times> store" where
  "compose ag s self other qargs front =
     (let qargs = (case qargs of None \<Rightarrow> data_qargs other | Some qs \<Rightarrow> Some qs)
      in case (case other of DClifford c \<Rightarrow> Inr (c, s) | _ \<Rightarrow> Clifford_init ag s other) of
           Inl e \<Rightarrow> Inl e
         | Inr (other', s') \<Rightarrow>
             (case get_compose_dims self other' qargs front of
                Inl e \<Rightarrow> Inl e
              | Inr _ \<Rightarrow> Inl NotImplementedError))"

subsection \<open>clifford.py: conjugation\<close>

text \<open>
  Modelled from the spec: \<^verbatim>\<open>BaseOperator.copy\<close>, which is not among the source files.
  The spec has every element own its tableau, a copy being a deep copy: the copy refers
  to a new table object with the same contents.
\<close>

definition Clifford_copy :: "store \<Rightarrow> Clifford \<Rightarrow> Clifford \<times> store" where
  "Clifford_copy s c = (let (r, s') = alloc (s ! table c) s in (c\<lparr>table := r\<rparr>, s'))"

text \<open>
  The element-wise \<^verbatim>\<open>^\<close> of the boolean phase vector with a vector of integers: the
  booleans count as 0 and 1, the result is a vector of integers. Vectors of different
  lengths raise ValueError (numpy's broadcasting of a one-entry operand is not modelled).
\<close>

definition np_xor :: "bool list \<Rightarrow> int list \<Rightarrow> error + int list" where
  "np_xor ps vs =
     (if length ps \<noteq> length vs then Inl ValueError
      else Inr (map2 (\<lambda>p v. of_bool p XOR v) ps vs))"

text \<open>
  Modelled from the spec: the setter of the property \<^verbatim>\<open>phase\<close> of the table, which is
  not among the source files. It writes the values into the boolean vector \<^verbatim>\<open>_phase\<close>
  of the same length, a non-zero integer becoming \<^verbatim>\<open>True\<close>.
\<close>

definition set_phase :: "store \<Rightarrow> Clifford \<Rightarrow> int list \<Rightarrow> error + store" where
  "set_phase s c vs =
     (if length vs \<noteq> length (phase (s ! table c)) then Inl ValueError
      else Inr (s[table c := (s ! table c)\<lparr>phase := map (\<lambda>v. v \<noteq> 0) vs\<rparr>]))"

text \<open>
  \<^verbatim>\<open>conjugate\<close>: \<^verbatim>\<open>np.sum(x & z, axis=1) % 2\<close> is, for each row, the number of
  positions where both bits are set, modulo 2.
\<close>

definition conjugate :: "store \<Rightarrow> Clifford \<Rightarrow> error + Clifford \<times> store" where
  "conjugate s c =
     (let x = table_X (s ! table c);
          z = table_Z (s ! table c);
          (ret, s') = Clifford_copy s c;
          sums = map2 (\<lambda>xr zr. (\<Sum>b\<leftarrow>map2 (\<and>) xr zr. (of_bool b :: int)) mod 2) x z
      in case np_xor (phase (s' ! table c)) sums of
           Inl e \<Rightarrow> Inl e
         | Inr vs \<Rightarrow>
             (case set_phase s' ret vs of
                Inl e \<Rightarrow> Inl e
              | Inr s'' \<Rightarrow> Inr (ret, s'')))"

subsection \<open>clifford.py: the dictionary form\<close>

text \<open>
  The methods \<^verbatim>\<open>to_labels\<close> and \<^verbatim>\<open>from_labels\<close> of the table, the slicing of a table
  and the \<^verbatim>\<open>+\<close> of two tables are not among the source files; the definitions of this
  subsection that stand for them follow the spec. By the spec a label is a sign, \<^verbatim>\<open>+\<close>
  or \<^verbatim>\<open>-\<close>, for the phase bit, followed by one of the letters I, X, Y, Z for each qubit,
  the most significant qubit leftmost, while the bit arrays run from the least
  significant qubit. A tableau row has a single phase bit, so a label with the imaginary
  marker denotes no row and is refused. (The tests in \<^verbatim>\<open>test_clifford_gates.py\<close> list
  the letters of a label in the order of the bit arrays; the round trip proved below
  does not depend on the order, writing and reading using the same one.)
\<close>

text \<open>
  Modelled from the spec: the letter of a qubit in a label, for the bit pairs
  (x, z) = (0, 0), (1, 0), (1, 1), (0, 1) the letters I, X, Y, Z, as the table in
  \<^verbatim>\<open>pauli_list.py\<close> lists them; the labelling code itself is not among the source files.
\<close>

definition pauli_char :: "bool \<Rightarrow> bool \<Rightarrow> char" where
  "pauli_char x z =
     (if z then (if x then CHR ''Y'' else CHR ''Z'') else (if x then CHR ''X'' else CHR ''I''))"

text \<open>
  Modelled from the spec: the label of one row, which no source file computes: the sign
  of the phase bit, then the letters of the qubits from the most significant one down.
\<close>

definition to_label :: "nat \<Rightarrow> bool list \<Rightarrow> bool \<Rightarrow> string" where
  "to_label n row ph =
     (if ph then CHR ''-'' else CHR ''+'')
       # map (\<lambda>k. pauli_char (row ! k) (row ! (n + k))) (rev [0..<n])"

text \<open>
  Modelled from the spec: \<^verbatim>\<open>StabilizerTable.to_labels\<close>, which is not among the source
  files: the labels of the rows, in order.
\<close>

definition to_labels :: "StabilizerTable \<Rightarrow> string list" where
  "to_labels t = map2 (to_label (n_qubits t)) (array t) (phase t)"

text \<open>
  Modelled from the spec: the reading of one label, which no source file does for a
  table: the row of X bits and Z bits and the phase bit that the label stands for, or
  an error for a text that is no label.
\<close>

definition from_label :: "string \<Rightarrow> error + bool list \<times> bool" where
  "from_label label =
     (case label of
        [] \<Rightarrow> Inl QiskitError
      | sg # ps \<Rightarrow>
          (if sg \<noteq> CHR ''+'' \<and> sg \<noteq> CHR ''-'' then Inl QiskitError
           else if ps = [] \<or> \<not> list_all (\<lambda>c. c \<in> set ''IXYZ'') ps then Inl QiskitError
           else Inr (rev (map (\<lambda>c. c = CHR ''X'' \<or> c = CHR ''Y'') ps)
                       @ rev (map (\<lambda>c. c = CHR ''Z'' \<or> c = CHR ''Y'') ps),
                     sg = CHR ''-'')))"

text \<open>
  Modelled from the spec: the reading of a list of labels, one after the other, stopping
  at the first that is refused; no source file does it for a table.
\<close>

fun from_label_list :: "string list \<Rightarrow> error + (bool list \<times> bool) list" where
  "from_label_list [] = Inr []"
| "from_label_list (l # ls) =
     (case from_label l of
        Inl e \<Rightarrow> Inl e
      | Inr rp \<Rightarrow>
          (case from_label_list ls of
             Inl e \<Rightarrow> Inl e
           | Inr rps \<Rightarrow> Inr (rp # rps)))"

text \<open>
  Modelled from the spec: \<^verbatim>\<open>StabilizerTable.from_labels\<close>, which is not among the
  source files: the table of the rows read, all labels being of one length.
\<close>

definition from_labels :: "string list \<Rightarrow> error + StabilizerTable" where
  "from_labels labels =
     (case from_label_list labels of
        Inl e \<Rightarrow> Inl e
      | Inr rps \<Rightarrow>
          (if \<not> list_all (\<lambda>rp. length (fst rp) = ncols (map fst rps)) rps then Inl QiskitError
           else Inr (StabilizerTable_init (map fst rps) (Some (map snd rps)))))"

text \<open>
  Modelled from the spec: \<^verbatim>\<open>StabilizerTable(self._table[a:b])\<close>, the table of the rows
  from \<open>a\<close> to \<open>b\<close> with their phase bits; the slicing is not among the source files.
\<close>

definition table_slice :: "StabilizerTable \<Rightarrow> nat \<Rightarrow> nat \<Rightarrow> StabilizerTable" where
  "table_slice t a b =
     StabilizerTable_init (take (b - a) (drop a (array t))) (Some (take (b - a) (drop a (phase t))))"

text \<open>
  Modelled from the spec: the \<^verbatim>\<open>+\<close> of two tables in \<^verbatim>\<open>from_dict\<close>, which is not among
  the source files: the rows of the first followed by the rows of the second, for tables
  on the same number of qubits.
\<close>

definition table_add :: "StabilizerTable \<Rightarrow> StabilizerTable \<Rightarrow> error + StabilizerTable" where
  "table_add a b =
     (if n_qubits a \<noteq> n_qubits b then Inl QiskitError
      else Inr (StabilizerTable_init (array a @ array b) (Some (phase a @ phase b))))"

text \<open>
  The properties \<^verbatim>\<open>stabilizer\<close> and \<^verbatim>\<open>destabilizer\<close> of \<^verbatim>\<open>clifford.py\<close>: the rows from
  \<^verbatim>\<open>n_qubits\<close> to \<^verbatim>\<open>2*n_qubits\<close>, and the rows from 0 to \<^verbatim>\<open>n_qubits\<close>.
\<close>

definition stabilizer :: "store \<Rightarrow> Clifford \<Rightarrow> StabilizerTable" where
  "stabilizer s c =
     table_slice (s ! table c) (clifford_n_qubits s c) (2 * clifford_n_qubits s c)"

definition destabilizer :: "store \<Rightarrow> Clifford \<Rightarrow> StabilizerTable" where
  "destabilizer s c = table_slice (s ! table c) 0 (clifford_n_qubits s c)"

text \<open>\<^verbatim>\<open>to_dict\<close> and \<^verbatim>\<open>from_dict\<close>; a dictionary is a map from keys to label lists.\<close>

definition to_dict :: "store \<Rightarrow> Clifford \<Rightarrow> (string \<rightharpoonup> string list)" where
  "to_dict s c =
     [''stabilizer'' \<mapsto> to_labels (stabilizer s c),
      ''destabilizer'' \<mapsto> to_labels (destabilizer s c)]"

text \<open>
  \<^verbatim>\<open>obj.get(key)\<close> is \<^verbatim>\<open>None\<close> for a missing key, and reading labels from \<^verbatim>\<open>None\<close>
  raises TypeError.
\<close>

definition from_dict ::
  "(store \<Rightarrow> Clifford \<Rightarrow> Instruction \<Rightarrow> error + store) \<Rightarrow> store \<Rightarrow> (string \<rightharpoonup> string list)
     \<Rightarrow> error + Clifford \<times> store" where
  "from_dict ag s obj =
     (case obj ''destabilizer'' of
        None \<Rightarrow> Inl TypeError
      | Some dl \<Rightarrow>
          (case from_labels dl of
             Inl e \<Rightarrow> Inl e
           | Inr destab \<Rightarrow>
               (case obj ''stabilizer'' of
                  None \<Rightarrow> Inl TypeError
                | Some sl \<Rightarrow>
                    (case from_labels sl of
                       Inl e \<Rightarrow> Inl e
                     | Inr stab \<Rightarrow>
                         (case table_add destab stab of
                            Inl e \<Rightarrow> Inl e
                          | Inr t \<Rightarrow> Clifford_init ag s (DTable t))))))"

text \<open>
  Modelled from the spec: the two comparisons of \<^verbatim>\<open>__eq__\<close>,
  \<^verbatim>\<open>super().__eq__(other) and self._table == other._table\<close>, which are not among the
  source files. By the spec two elements are equal if and only if their arrays and
  phases are equal entry by entry; the comparison of \<^verbatim>\<open>BaseOperator\<close> is that of the
  dimensions.
\<close>

definition Clifford_eq :: "store \<Rightarrow> Clifford \<Rightarrow> Clifford \<Rightarrow> bool" where
  "Clifford_eq s a b \<longleftrightarrow>
     dims a = dims b
     \<and> array (s ! table a) = array (s ! table b)
     \<and> phase (s ! table a) = phase (s ! table b)"

text \<open>
  A table of the right shape for \<open>N\<close> qubits: \<open>2N\<close> rows of \<open>2N\<close> bits each and \<open>2N\<close>
  phase bits; and a Clifford in a store that refers to such a table.
\<close>

definition wf_table :: "StabilizerTable \<Rightarrow> bool" where
  "wf_table t \<longleftrightarrow>
     length (array t) = 2 * n_qubits t
     \<and> list_all (\<lambda>row. length row = 2 * n_qubits t) (array t)
     \<and> length (phase t) = 2 * n_qubits t"

definition wf_clifford :: "store \<Rightarrow> Clifford \<Rightarrow> bool" where
  "wf_clifford s c \<longleftrightarrow>
     table c < length s \<and> wf_table (s ! table c)
     \<and> dims c = replicate (n_qubits (s ! table c)) 2"

subsection \<open>clifford\_utils.py: random Cliffords\<close>

text \<open>
  The generator \<^verbatim>\<open>random.Random\<close> belongs to Python's library, not to this
  repository: its operations are parameters. \<open>seed_state S\<close> is the state after
  \<^verbatim>\<open>rng.seed(S)\<close> for an integer \<open>S\<close>; \<^verbatim>\<open>rng.seed(None)\<close> takes the state from the
  operating system, the argument \<open>entropy\<close> of \<open>random_clifford\<close>. \<open>randint\<close> and
  \<open>randrange\<close> return the number drawn and the next state.
\<close>

record 'g Random =
  seed_state :: "int \<Rightarrow> 'g"
  randint :: "'g \<Rightarrow> int \<Rightarrow> int \<Rightarrow> int \<times> 'g"
  randrange :: "'g \<Rightarrow> int \<Rightarrow> int \<times> 'g"

text \<open>\<^verbatim>\<open>[rng.randint(0, 1) for _ in range(k)]\<close>.\<close>

fun randint_list :: "('g \<Rightarrow> int \<Rightarrow> int \<Rightarrow> int \<times> 'g) \<Rightarrow> nat \<Rightarrow> 'g \<Rightarrow> int list \<times> 'g" where
  "randint_list ri 0 g = ([], g)"
| "randint_list ri (Suc k) g =
     (let (b, g') = ri g 0 1;
          (bs, g'') = randint_list ri k g'
      in (b # bs, g''))"

text \<open>
  \<^verbatim>\<open>random_clifford(num_qubits, seed=None)\<close>. The function \<^verbatim>\<open>symplectic\<close> (module
  \<^verbatim>\<open>symplectic_utils\<close>) is not among the source files; it is a parameter, the map from
  an index and a qubit count to a matrix of integers. The two loops copy rows, then
  columns, into the arrays \<^verbatim>\<open>symp2\<close> and \<^verbatim>\<open>symp3\<close> of type uint8, and the table is
  made from \<^verbatim>\<open>symp3\<close> and the phase, non-zero entries becoming \<^verbatim>\<open>True\<close>. A matrix with
  fewer than \<open>2 * num_qubits\<close> rows raises IndexError at \<^verbatim>\<open>symp[2 * i + 1]\<close>, and a row
  of another length than \<open>2 * num_qubits\<close> raises ValueError in the assignment.
\<close>

definition random_clifford ::
  "'g Random \<Rightarrow> (int \<Rightarrow> nat \<Rightarrow> int list list)
     \<Rightarrow> (store \<Rightarrow> Clifford \<Rightarrow> Instruction \<Rightarrow> error + store)
     \<Rightarrow> 'g \<Rightarrow> store \<Rightarrow> nat \<Rightarrow> int option \<Rightarrow> error + Clifford \<times> store" where
  "random_clifford R symplectic ag entropy s num_qubits seed =
     (let rng = (case seed of None \<Rightarrow> entropy | Some sd \<Rightarrow> seed_state R sd);
          (bits, rng) = randint_list (randint R) (2 * num_qubits) rng;
          ph = map (\<lambda>b. b \<noteq> 0) bits;
          sz = random_clifford_size num_qubits;
          (rint, rng) = randrange R rng sz;
          symp = symplectic rint num_qubits
      in if length symp < 2 * num_qubits then Inl IndexError
         else if \<not> list_all (\<lambda>row. length row = 2 * num_qubits) (take (2 * num_qubits) symp)
         then Inl ValueError
         else
           (let symp2 = map (\<lambda>i. map (\<lambda>v. v mod 256) (symp ! (2 * i))) [0..<num_qubits]
                        @ map (\<lambda>i. map (\<lambda>v. v mod 256) (symp ! (2 * i + 1))) [0..<num_qubits];
                symp3 = map (\<lambda>row. map (\<lambda>i. row ! (2 * i)) [0..<num_qubits]
                                    @ map (\<lambda>i. row ! (2 * i + 1)) [0..<num_qubits]) symp2
            in Clifford_init ag s
                 (DTable (StabilizerTable_init (map (map (\<lambda>v. v \<noteq> 0)) symp3) (Some ph)))))"

subsection \<open>Auxiliary definitions for the proofs\<close>

text \<open>
  The gates that one call of \<open>append_gate_list\<close> adds, by gate type, and the reading of
  a finished gate list that the statement about \<open>clifford2_gates\<close> uses.
\<close>

definition hadamard_gates :: "nat \<Rightarrow> int \<Rightarrow> string list" where
  "hadamard_gates q i = (if i = 1 then [''h '' @ str q] else [])"

definition rotation_gates :: "nat \<Rightarrow> int \<Rightarrow> string list" where
  "rotation_gates q i =
     (if i = 1 then [''v '' @ str q] else if i = 2 then [''w '' @ str q] else [])"

definition pauli_gates :: "nat \<Rightarrow> int \<Rightarrow> string list" where
  "pauli_gates q i =
     (if i = 1 then [''z '' @ str q] else if i = 2 then [''x '' @ str q]
      else if i = 3 then [''y '' @ str q] else [])"

definition cnot_gate :: "nat \<Rightarrow> nat \<Rightarrow> string" where
  "cnot_gate q0 q1 = ''cx '' @ str q0 @ '' '' @ str q1"

definition gates_ok :: "string list \<Rightarrow> bool" where
  "gates_ok gl \<longleftrightarrow>
     (\<forall>g\<in>set gl. gate_name g \<noteq> ''cx'' \<longrightarrow>
        gate_name g \<in> {''h'', ''v'', ''w'', ''x'', ''y'', ''z''})"

text \<open>
  Example tables on one and two qubits, as the tests of \<^verbatim>\<open>test_clifford_gates.py\<close>
  give them for the identity, the S gate, the Hadamard gate and the CNOT gate (two of
  them with a phase bit set), a Clifford object referring to the table at a position of
  the store, and an \<^verbatim>\<open>append_gate\<close> that does nothing.
\<close>

definition I_table :: StabilizerTable where
  "I_table = \<lparr>array = [[True, False], [False, True]], phase = [False, False], n_qubits = 1\<rparr>"

definition S_table :: StabilizerTable where
  "S_table = \<lparr>array = [[True, True], [False, True]], phase = [False, False], n_qubits = 1\<rparr>"

definition H_table :: StabilizerTable where
  "H_table = \<lparr>array = [[False, True], [True, False]], phase = [True, False], n_qubits = 1\<rparr>"

definition CX_table :: StabilizerTable where
  "CX_table =
     \<lparr>array = [[True, True, False, False], [False, True, False, False],
               [False, False, True, False], [False, False, True, True]],
      phase = [False, True, False, False], n_qubits = 2\<rparr>"

definition clifford_at :: "ref \<Rightarrow> Clifford" where
  "clifford_at r = \<lparr>table = r, dims = [2], op_qargs = None\<rparr>"

definition no_gates :: "store \<Rightarrow> Clifford \<Rightarrow> Instruction \<Rightarrow> error + store" where
  "no_gates s c i = Inr s"

text \<open>
  A small generator and a small \<^verbatim>\<open>symplectic\<close> to run \<open>random_clifford\<close> on: the
  state is a counter, and every index is mapped to the identity matrix.
\<close>

definition counter_rng :: "int Random" where
  "counter_rng =
     \<lparr>seed_state = (\<lambda>S. S),
      randint = (\<lambda>g a b. (a + g mod (b - a + 1), g + 1)),
      randrange = (\<lambda>g n. (g mod n, g + 1))\<rparr>"

definition identity_symplectic :: "int \<Rightarrow> nat \<Rightarrow> int list list" where
  "identity_symplectic i n = map (map of_bool) (eye (2 * n))"

section \<open>Properties\<close>

subsection \<open>The order of the symplectic group\<close>

lemma fold_size_prod:
  "fold (\<lambda>i sz. sz * (4 ^ i - 1)) [1..<n + 1] (a::int) = a * (\<Prod>k = 1..n. 4 ^ k - 1)"
proof (induction n)
  case 0
  show ?case by simp
next
  case (Suc n)
  have "[1..<Suc n + 1] = [1..<n + 1] @ [Suc n]" by simp
  then have "fold (\<lambda>i sz. sz * (4 ^ i - 1)) [1..<Suc n + 1] a
      = fold (\<lambda>i sz. sz * (4 ^ i - 1)) [1..<n + 1] a * (4 ^ Suc n - 1)"
    by (simp only: fold_append o_apply fold_simps)
  also have "\<dots> = a * (\<Prod>k = 1..n. 4 ^ k - 1) * (4 ^ Suc n - 1)"
    by (simp only: Suc.IH)
  also have "\<dots> = a * (\<Prod>k = 1..Suc n. 4 ^ k - 1)"
    by (simp add: mult.assoc)
  finally show ?case .
qed

text \<open>
  C8. For every qubit count \<open>n\<close> (in particular every \<open>n \<ge> 1\<close>) the value of \<^verbatim>\<open>size\<close>
  that \<^verbatim>\<open>random_clifford\<close> computes is the integer \<open>2^(n\<^sup>2) \<cdot> \<Prod>\<^sub>k\<^sub>=\<^sub>1\<^sub>.\<^sub>.\<^sub>n (4^k - 1)\<close>, the
  order of the symplectic group; the value is an unbounded integer, so nothing wraps
  around.
\<close>

theorem random_clifford_size_exact:
  "random_clifford_size n = 2 ^ (n ^ 2) * (\<Prod>k = 1..n. 4 ^ k - 1)"
  unfolding random_clifford_size_def by (rule fold_size_prod)

subsection \<open>The gate list of a two-qubit Clifford\<close>

lemma agl_hadamard:
  "append_gate_list ''hadamard'' (q # qs) (Some i) gl = Inr (gl @ hadamard_gates q i)"
  by (simp add: append_gate_list_def append1_def hadamard_gates_def)

lemma agl_rotation:
  "append_gate_list ''rotation'' (q # qs) (Some i) gl = Inr (gl @ rotation_gates q i)"
  by (simp add: append_gate_list_def append1_def rotation_gates_def)

lemma agl_pauli:
  "append_gate_list ''pauli'' (q # qs) (Some i) gl = Inr (gl @ pauli_gates q i)"
  by (simp add: append_gate_list_def append1_def pauli_gates_def)

lemma agl_cnot:
  "append_gate_list ''cnot'' (q0 # q1 # qs) i gl = Inr (gl @ [cnot_gate q0 q1])"
  by (simp add: append_gate_list_def append2_def cnot_gate_def)

lemma count_cx_append: "count_cx (xs @ ys) = count_cx xs + count_cx ys"
  by (simp add: count_cx_def)

lemma count_cx_Nil: "count_cx [] = 0"
  by (simp add: count_cx_def)

lemma count_cx_hadamard: "count_cx (hadamard_gates q i) = 0"
  by (simp add: count_cx_def hadamard_gates_def gate_name_def)

lemma count_cx_rotation: "count_cx (rotation_gates q i) = 0"
  by (simp add: count_cx_def rotation_gates_def gate_name_def)

lemma count_cx_pauli: "count_cx (pauli_gates q i) = 0"
  by (simp add: count_cx_def pauli_gates_def gate_name_def)

lemma count_cx_cnot: "count_cx (cnot_gate q0 q1 # gl) = Suc (count_cx gl)"
  by (simp add: count_cx_def gate_name_def cnot_gate_def)

lemma gates_ok_append: "gates_ok (xs @ ys) \<longleftrightarrow> gates_ok xs \<and> gates_ok ys"
  by (auto simp add: gates_ok_def)

lemma gates_ok_Nil: "gates_ok []"
  by (simp add: gates_ok_def)

lemma gates_ok_hadamard: "gates_ok (hadamard_gates q i)"
  by (simp add: gates_ok_def hadamard_gates_def gate_name_def)

lemma gates_ok_rotation: "gates_ok (rotation_gates q i)"
  by (simp add: gates_ok_def rotation_gates_def gate_name_def)

lemma gates_ok_pauli: "gates_ok (pauli_gates q i)"
  by (simp add: gates_ok_def pauli_gates_def gate_name_def)

lemma gates_ok_cnot: "gates_ok (cnot_gate q0 q1 # gl) \<longleftrightarrow> gates_ok gl"
  by (simp add: gates_ok_def gate_name_def cnot_gate_def)

lemmas agl_simps = agl_hadamard agl_rotation agl_pauli agl_cnot
lemmas cx_simps = count_cx_append count_cx_Nil count_cx_hadamard count_cx_rotation
  count_cx_pauli count_cx_cnot
lemmas ok_simps = gates_ok_append gates_ok_Nil gates_ok_hadamard gates_ok_rotation
  gates_ok_pauli gates_ok_cnot

lemma clifford2_gates_local:
  assumes "(idx mod 11520) div 16 < 36"
  shows "\<exists>gl. clifford2_gates idx = Inr gl \<and> count_cx gl = 0 \<and> gates_ok gl"
  unfolding clifford2_gates_def Let_def
  by (simp only: assms if_True if_False seq.simps agl_simps sum.case append_Nil)
    (simp add: cx_simps ok_simps)

lemma clifford2_gates_cnot:
  assumes "\<not> (idx mod 11520) div 16 < 36" "(idx mod 11520) div 16 < 360"
  shows "\<exists>gl. clifford2_gates idx = Inr gl \<and> count_cx gl = 1 \<and> gates_ok gl"
  unfolding clifford2_gates_def Let_def
  by (simp only: assms if_True if_False seq.simps agl_simps sum.case append_Nil)
    (simp add: cx_simps ok_simps)

lemma clifford2_gates_iswap:
  assumes "\<not> (idx mod 11520) div 16 < 36" "\<not> (idx mod 11520) div 16 < 360"
    "(idx mod 11520) div 16 < 684"
  shows "\<exists>gl. clifford2_gates idx = Inr gl \<and> count_cx gl = 2 \<and> gates_ok gl"
  unfolding clifford2_gates_def Let_def
  by (simp only: assms if_True if_False seq.simps agl_simps sum.case append_Nil)
    (simp add: cx_simps ok_simps)

lemma clifford2_gates_swap:
  assumes "\<not> (idx mod 11520) div 16 < 36" "\<not> (idx mod 11520) div 16 < 360"
    "\<not> (idx mod 11520) div 16 < 684"
  shows "\<exists>gl. clifford2_gates idx = Inr gl \<and> count_cx gl = 3 \<and> gates_ok gl"
  unfolding clifford2_gates_def Let_def
  by (simp only: assms if_True if_False seq.simps agl_simps sum.case append_Nil)
    (simp add: cx_simps ok_simps)

text \<open>
  C9. For every index \<open>idx\<close> (non-negative or not), \<^verbatim>\<open>clifford2_gates(idx)\<close> returns a
  gate list whose class is fixed by \<open>s = (idx mod 11520) div 16\<close> alone: it holds no
  \<^verbatim>\<open>cx\<close> gate if \<open>s < 36\<close>, exactly one if \<open>36 \<le> s < 360\<close>, exactly two if
  \<open>360 \<le> s < 684\<close>, and exactly three otherwise; every other gate of the list is one of
  \<^verbatim>\<open>h\<close>, \<^verbatim>\<open>v\<close>, \<^verbatim>\<open>w\<close>, \<^verbatim>\<open>x\<close>, \<^verbatim>\<open>y\<close>, \<^verbatim>\<open>z\<close>.
\<close>

theorem clifford2_gates_classes:
  "\<exists>gl. clifford2_gates idx = Inr gl
     \<and> count_cx gl =
         (let s = (idx mod 11520) div 16
          in if s < 36 then 0 else if s < 360 then 1 else if s < 684 then 2 else 3)
     \<and> (\<forall>g\<in>set gl. gate_name g \<noteq> ''cx'' \<longrightarrow>
          gate_name g \<in> {''h'', ''v'', ''w'', ''x'', ''y'', ''z''})"
proof -
  define s where "s = (idx mod 11520) div 16"
  consider (local) "s < 36"
    | (cnot) "\<not> s < 36" "s < 360"
    | (iswap) "\<not> s < 36" "\<not> s < 360" "s < 684"
    | (swap) "\<not> s < 36" "\<not> s < 360" "\<not> s < 684"
    by linarith
  then have "\<exists>gl. clifford2_gates idx = Inr gl
     \<and> count_cx gl = (if s < 36 then 0 else if s < 360 then 1 else if s < 684 then 2 else 3)
     \<and> gates_ok gl"
  proof cases
    case local
    with clifford2_gates_local [of idx] show ?thesis
      by (simp add: s_def)
  next
    case cnot
    with clifford2_gates_cnot [of idx] show ?thesis
      by (simp add: s_def)
  next
    case iswap
    with clifford2_gates_iswap [of idx] show ?thesis
      by (simp add: s_def)
  next
    case swap
    with clifford2_gates_swap [of idx] show ?thesis
      by (simp add: s_def)
  qed
  then show ?thesis
    unfolding gates_ok_def Let_def s_def .
qed

theorem clifford2_gates_classes_witness:
  "clifford2_gates 600 = Inr [''v 0'', ''cx 0 1'', ''x 1'']
   \<and> count_cx [''v 0'', ''cx 0 1'', ''x 1''] = 1
   \<and> map gate_name [''v 0'', ''cx 0 1'', ''x 1''] = [''v'', ''cx'', ''x'']"
proof -
  have run: "clifford2_gates 600 = Inr [''v 0'', ''cx 0 1'', ''x 1'']"
    by (simp add: clifford2_gates_def Let_def agl_simps hadamard_gates_def rotation_gates_def
        pauli_gates_def cnot_gate_def str.simps)
  from clifford2_gates_classes [of 600] have "count_cx [''v 0'', ''cx 0 1'', ''x 1''] = 1"
    unfolding run by (simp add: Let_def)
  with run show ?thesis
    by (simp add: gate_name_def)
qed

subsection \<open>Construction\<close>

lemma init_new_table_result:
  "init_new_table s t =
     (if table_size t \<noteq> 2 * n_qubits t then Inl QiskitError
      else Inr (\<lparr>table = length s, dims = replicate (n_qubits t) 2, op_qargs = None\<rparr>, s @ [t]))"
  by (simp add: init_new_table_def alloc_def validate_shape_def)

lemma Clifford_init_DTable:
  "Clifford_init ag s (DTable t) = init_new_table s (StabilizerTable_init (array t) (Some (phase t)))"
  by (simp add: Clifford_init_def)

text \<open>
  C10. Constructing a Clifford from a raw array raises an error exactly when the number
  of rows differs from twice the qubit count of the table, the only error is the
  validation error \<^verbatim>\<open>QiskitError\<close>, and an array of the right shape is accepted whatever
  its entries are (no symplectic check is made); the element built then holds the array
  and satisfies \<open>size = 2 * n_qubits\<close>.
\<close>

theorem Clifford_init_array_shape:
  "((\<exists>e. Clifford_init ag s (DArray a) = Inl e) \<longleftrightarrow> length a \<noteq> 2 * (ncols a div 2))
   \<and> (\<forall>e. Clifford_init ag s (DArray a) = Inl e \<longrightarrow> e = QiskitError)
   \<and> (length a = 2 * (ncols a div 2) \<longrightarrow>
        (\<exists>c s'. Clifford_init ag s (DArray a) = Inr (c, s')
           \<and> array (s' ! table c) = a
           \<and> table_size (s' ! table c) = 2 * clifford_n_qubits s' c))"
  by (simp add: Clifford_init_def init_new_table_def alloc_def validate_shape_def
      StabilizerTable_init_def table_size_def clifford_n_qubits_def)

theorem Clifford_init_array_shape_witness:
  "Clifford_init no_gates [] (DArray [[False, False], [False, False]])
     = Inr (\<lparr>table = 0, dims = [2], op_qargs = None\<rparr>,
            [\<lparr>array = [[False, False], [False, False]], phase = [False, False], n_qubits = 1\<rparr>])
   \<and> \<not> is_symplectic [[False, False], [False, False]]
   \<and> Clifford_init no_gates [] (DArray [[False, False]]) = Inl QiskitError"
proof -
  have ok: "length [[False, False], [False, False]] = 2 * (ncols [[False, False], [False, False]] div 2)"
    by (simp add: ncols_def)
  have bad: "length [[False, False]] \<noteq> 2 * (ncols [[False, False]] div 2)"
    by (simp add: ncols_def)
  from Clifford_init_array_shape [of no_gates "[]" "[[False, False], [False, False]]"] ok
  obtain c s' where run: "Clifford_init no_gates [] (DArray [[False, False], [False, False]]) = Inr (c, s')"
    by blast
  have val: "Clifford_init no_gates [] (DArray [[False, False], [False, False]])
     = Inr (\<lparr>table = 0, dims = [2], op_qargs = None\<rparr>,
            [\<lparr>array = [[False, False], [False, False]], phase = [False, False], n_qubits = 1\<rparr>])"
    by (simp add: Clifford_init_def init_new_table_def alloc_def validate_shape_def
      StabilizerTable_init_def table_size_def ncols_def)
  from Clifford_init_array_shape [of no_gates "[]" "[[False, False]]"] bad
  obtain e where "Clifford_init no_gates [] (DArray [[False, False]]) = Inl e" "e = QiskitError"
    by blast
  then have err: "Clifford_init no_gates [] (DArray [[False, False]]) = Inl QiskitError"
    by simp
  have ns: "\<not> is_symplectic [[False, False], [False, False]]"
    by (simp add: is_symplectic_def gf2_mul_def symeye_def eye_def zeros_def ncols_def)
  from val ns err show ?thesis by simp
qed

text \<open>
  C4, as the code has it. Constructing a Clifford from another Clifford whose table has
  a valid shape makes no copy: the store is unchanged and the new element refers to the
  same table object. So \<^verbatim>\<open>reset\<close> on the new element sets the tableau that the original
  element reads to the identity and its phase to zero.
\<close>

theorem Clifford_init_shares_table:
  assumes "table c < length s"
    and "table_size (s ! table c) = 2 * n_qubits (s ! table c)"
  shows "\<exists>c'. Clifford_init ag s (DClifford c) = Inr (c', s)
           \<and> table c' = table c
           \<and> array (reset s c' ! table c) = eye (length (array (s ! table c)))
           \<and> phase (reset s c' ! table c) = zeros (length (phase (s ! table c)))"
  using assms by (simp add: Clifford_init_def validate_shape_def reset_def)

theorem Clifford_init_shares_table_witness:
  "Clifford_init no_gates [H_table] (DClifford (clifford_at 0)) = Inr (clifford_at 0, [H_table])
   \<and> array (reset [H_table] (clifford_at 0) ! 0) = [[True, False], [False, True]]
   \<and> phase (reset [H_table] (clifford_at 0) ! 0) = [False, False]"
proof -
  have a: "table (clifford_at 0) < length [H_table]"
    by (simp add: clifford_at_def)
  have b: "table_size ([H_table] ! table (clifford_at 0)) = 2 * n_qubits ([H_table] ! table (clifford_at 0))"
    by (simp add: clifford_at_def H_table_def table_size_def)
  from Clifford_init_shares_table [OF a b, of no_gates]
  obtain c' where c': "Clifford_init no_gates [H_table] (DClifford (clifford_at 0)) = Inr (c', [H_table])"
    "table c' = table (clifford_at 0)"
    "array (reset [H_table] c' ! table (clifford_at 0)) = eye (length (array ([H_table] ! table (clifford_at 0))))"
    "phase (reset [H_table] c' ! table (clifford_at 0)) = zeros (length (phase ([H_table] ! table (clifford_at 0))))"
    by blast
  have "c' = clifford_at 0"
    using c'(1) by (simp add: Clifford_init_def validate_shape_def clifford_at_def H_table_def
        table_size_def split: if_splits)
  with c' show ?thesis
    by (simp add: clifford_at_def H_table_def eye_def zeros_def)
qed

text \<open>
  C4, as the claim states it, fails: it is not true that after constructing a Clifford
  from another one, \<^verbatim>\<open>reset\<close> on the new element leaves the table of the original
  unchanged. The Hadamard table is the example.
\<close>

theorem Clifford_init_copy_counterexample:
  "\<not> (\<forall>ag s c c' s'. table c < length s \<longrightarrow> Clifford_init ag s (DClifford c) = Inr (c', s')
        \<longrightarrow> reset s' c' ! table c = s' ! table c)"
proof
  assume h: "\<forall>ag s c c' s'. table c < length s \<longrightarrow> Clifford_init ag s (DClifford c) = Inr (c', s')
        \<longrightarrow> reset s' c' ! table c = s' ! table c"
  have run: "Clifford_init no_gates [H_table] (DClifford (clifford_at 0)) = Inr (clifford_at 0, [H_table])"
    by (simp add: Clifford_init_def validate_shape_def clifford_at_def H_table_def table_size_def)
  have "table (clifford_at 0) < length [H_table]"
    by (simp add: clifford_at_def)
  with h run have "reset [H_table] (clifford_at 0) ! table (clifford_at 0) = [H_table] ! table (clifford_at 0)"
    by blast
  then show False
    by (simp add: reset_def clifford_at_def H_table_def eye_def zeros_def)
qed

subsection \<open>Composition, row sum and validity check\<close>

text \<open>Whatever its arguments, \<open>compose\<close> returns no Clifford.\<close>

lemma compose_never_returns: "compose ag s self other qs front \<noteq> Inr r"
  by (simp add: compose_def Let_def split: sum.splits prod.splits data.splits)

text \<open>
  C1. The claim is that \<^verbatim>\<open>compose\<close> returns the group product and does not fail with a
  not-implemented error. The code evaluated on two identity elements on one qubit, with
  either value of \<^verbatim>\<open>front\<close>: the dimensions are validated and the call raises
  \<^verbatim>\<open>NotImplementedError\<close>.
\<close>

theorem compose_raises_not_implemented:
  "compose ag [I_table, I_table] (clifford_at 0) (DClifford (clifford_at 1)) None front
     = Inl NotImplementedError"
  by (simp add: compose_def data_qargs_def get_compose_dims_def clifford_at_def)

text \<open>
  What the row sum does as it is written. On rows of a table with at least one qubit
  the first pass of the loop fails at the lookup of \<^verbatim>\<open>self._g_AG\<close>: the call raises
  AttributeError and changes no bit of the target row. On rows without qubits the loop
  has no pass and the target row is returned as it was.
\<close>

lemma rowsum_AG_raises:
  assumes "3 \<le> length rowh" and "rowi \<noteq> []"
  shows "rowsum_AG rowh rowi = Inl AttributeError"
proof -
  from assms(1) have ne: "rowh \<noteq> []" by auto
  from assms(1) have "0 < (length rowh - 1) div 2" by simp
  then have "[0..<(length rowh - 1) div 2] = 0 # [Suc 0..<(length rowh - 1) div 2]"
    by (simp add: upt_conv_Cons)
  with ne assms(2) show ?thesis
    by (simp add: rowsum_AG_def rowsum_step_def self_g_AG_def Let_def)
qed

lemma rowsum_AG_no_qubit:
  assumes "rowh \<noteq> []" and "rowi \<noteq> []" and "length rowh \<le> 2"
  shows "rowsum_AG rowh rowi = Inr rowh"
proof -
  from assms(3) have "(length rowh - 1) div 2 = 0" by simp
  with assms(1,2) show ?thesis
    by (simp add: rowsum_AG_def Let_def)
qed

text \<open>
  C2. The claim is that the row sum adds the X and Z bits of the source row to the
  target row exactly once and sets the target phase from the two phases and the sign
  function \<open>g\<close>. The code evaluated on two rows of a two-qubit table, the target with X
  on qubit 0 and the source with X on qubit 1: the call raises AttributeError at
  \<^verbatim>\<open>self._g_AG\<close> in the first pass of the loop, where the row sum of the specification
  is the row with X on both qubits.
\<close>

theorem rowsum_AG_raises_attribute_error:
  "rowsum_AG [True, False, False, False, False] [False, True, False, False, False]
     = Inl AttributeError
   \<and> rowsum_spec [True, False, False, False, False] [False, True, False, False, False]
     = [True, True, False, False, False]"
  by (simp add: rowsum_AG_def rowsum_spec_def rowsum_step_def self_g_AG_def g_AG_def Let_def)

text \<open>
  C3. The claim is that \<^verbatim>\<open>is_unitary\<close> returns True exactly for the tables \<open>T\<close> with
  \<open>T \<cdot> \<Omega> \<cdot> T\<^sup>T = \<Omega>\<close> modulo 2. The code evaluated on the table of the S gate, which
  satisfies that equation: \<^verbatim>\<open>is_unitary\<close> multiplies by \<open>T\<close> where the transpose belongs
  and returns False.
\<close>

theorem is_unitary_rejects_s_gate:
  "is_unitary [S_table] (clifford_at 0) = Inr False \<and> is_symplectic (array S_table)"
  by (simp add: is_unitary_def is_symplectic_def np_dot_def gf2_mul_def symeye_def eye_def
      zeros_def S_table_def clifford_at_def clifford_n_qubits_def ncols_def Let_def)

subsection \<open>Conjugation\<close>

lemma sum_of_bool: "(\<Sum>b\<leftarrow>bs. (of_bool b :: int)) = int (length (filter (\<lambda>b. b) bs))"
  by (induction bs) auto

lemma xor_parity: "((of_bool p :: int) XOR (int k mod 2)) \<noteq> 0 \<longleftrightarrow> (p \<noteq> odd k)"
proof -
  have "int k mod 2 = of_bool (odd k)"
    by (simp add: mod2_eq_if)
  then show ?thesis
    by (cases p; cases "odd k") simp_all
qed

lemma row_parity:
  "(((of_bool p :: int) XOR ((\<Sum>b\<leftarrow>bs. of_bool b) mod 2)) \<noteq> 0)
     = (p \<noteq> odd (length (filter (\<lambda>b. b) bs)))"
  by (simp only: sum_of_bool xor_parity)

text \<open>
  C5. For a Clifford whose table has one phase bit for each row, \<^verbatim>\<open>conjugate\<close> returns
  a new element with a table object of its own; every table that was in the store,
  the receiver's among them, is unchanged; the new table has the same array (so the same
  X and Z bits), and its phase bit in each row is the original phase bit XOR the parity
  of the number of positions where the row's X bit and Z bit are both set.
\<close>

theorem conjugate_phase:
  assumes "table c < length s"
    and "length (phase (s ! table c)) = length (array (s ! table c))"
  shows "\<exists>ret s'. conjugate s c = Inr (ret, s')
           \<and> table ret \<noteq> table c
           \<and> take (length s) s' = s
           \<and> array (s' ! table ret) = array (s ! table c)
           \<and> phase (s' ! table ret) =
               map (\<lambda>i. phase (s ! table c) ! i
                          \<noteq> odd (length (filter (\<lambda>b. b)
                                (map2 (\<and>) (table_X (s ! table c) ! i) (table_Z (s ! table c) ! i)))))
                   [0..<table_size (s ! table c)]"
proof -
  let ?t = "s ! table c"
  let ?row = "\<lambda>xr zr. (\<Sum>b\<leftarrow>map2 (\<and>) xr zr. (of_bool b :: int)) mod 2"
  let ?sums = "map2 ?row (table_X ?t) (table_Z ?t)"
  let ?new = "map (\<lambda>v. v \<noteq> 0) (map2 (\<lambda>p v. of_bool p XOR v) (phase ?t) ?sums)"
  let ?want = "map (\<lambda>i. phase ?t ! i \<noteq> odd (length (filter (\<lambda>b. b)
                 (map2 (\<and>) (table_X ?t ! i) (table_Z ?t ! i))))) [0..<table_size ?t]"
  have lenX: "length (table_X ?t) = length (array ?t)"
    and lenZ: "length (table_Z ?t) = length (array ?t)"
    by (simp_all add: table_X_def table_Z_def)
  have len: "length ?sums = length (array ?t)"
    using lenX lenZ by simp
  have ph: "?new = ?want"
  proof (rule nth_equalityI)
    show "length ?new = length ?want"
      using len assms(2) by (simp add: table_size_def)
  next
    fix i assume "i < length ?new"
    then have i: "i < length (array ?t)"
      using len assms(2) by simp
    have si: "?sums ! i = ?row (table_X ?t ! i) (table_Z ?t ! i)"
      using i lenX lenZ by simp
    have "?new ! i = ((of_bool (phase ?t ! i) XOR ?sums ! i) \<noteq> 0)"
      using i len assms(2) by simp
    also have "\<dots> = ((of_bool (phase ?t ! i) XOR ?row (table_X ?t ! i) (table_Z ?t ! i)) \<noteq> 0)"
      by (simp only: si)
    also have "\<dots> = (phase ?t ! i \<noteq> odd (length (filter (\<lambda>b. b)
                 (map2 (\<and>) (table_X ?t ! i) (table_Z ?t ! i)))))"
      by (rule row_parity)
    also have "\<dots> = ?want ! i"
      using i by (simp add: table_size_def)
    finally show "?new ! i = ?want ! i" .
  qed
  have run: "conjugate s c = Inr (c\<lparr>table := length s\<rparr>, (s @ [?t])[length s := ?t\<lparr>phase := ?new\<rparr>])"
    using assms len
    by (simp add: conjugate_def Clifford_copy_def alloc_def np_xor_def set_phase_def
        nth_append Let_def del: map_map zip_map_fst_snd)
  show ?thesis
    unfolding run using assms(1) ph by (simp add: nth_append)
qed

theorem conjugate_phase_witness:
  "conjugate [S_table] (clifford_at 0)
     = Inr (clifford_at 1, [S_table, S_table\<lparr>phase := [True, False]\<rparr>])"
proof -
  have a: "table (clifford_at 0) < length [S_table]"
    by (simp add: clifford_at_def)
  have b: "length (phase ([S_table] ! table (clifford_at 0))) = length (array ([S_table] ! table (clifford_at 0)))"
    by (simp add: clifford_at_def S_table_def)
  from conjugate_phase [OF a b] obtain ret s' where
    r: "conjugate [S_table] (clifford_at 0) = Inr (ret, s')" by blast
  have val: "conjugate [S_table] (clifford_at 0)
     = Inr (clifford_at 1, [S_table, S_table\<lparr>phase := [True, False]\<rparr>])"
    by (simp add: conjugate_def Clifford_copy_def alloc_def np_xor_def set_phase_def
        table_X_def table_Z_def clifford_at_def S_table_def Let_def)
  from r val show ?thesis by simp
qed

subsection \<open>The dictionary form\<close>

lemma pauli_char_x: "(pauli_char x z = CHR ''X'' \<or> pauli_char x z = CHR ''Y'') = x"
  by (simp add: pauli_char_def)

lemma pauli_char_z: "(pauli_char x z = CHR ''Z'' \<or> pauli_char x z = CHR ''Y'') = z"
  by (simp add: pauli_char_def)

lemma pauli_char_valid: "pauli_char x z \<in> set ''IXYZ''"
  by (simp add: pauli_char_def)

lemma map_nth_take: "n \<le> length xs \<Longrightarrow> map (\<lambda>k. xs ! k) [0..<n] = take n xs"
  by (rule nth_equalityI) simp_all

lemma map_nth_drop: "length xs = 2 * n \<Longrightarrow> map (\<lambda>k. xs ! (n + k)) [0..<n] = drop n xs"
  by (rule nth_equalityI) simp_all

lemma from_label_to_label:
  assumes "length row = 2 * n" and "0 < n"
  shows "from_label (to_label n row ph) = Inr (row, ph)"
proof -
  let ?ps = "map (\<lambda>k. pauli_char (row ! k) (row ! (n + k))) (rev [0..<n])"
  have ne: "?ps \<noteq> []"
    using assms(2) by simp
  have valid: "list_all (\<lambda>c. c \<in> set ''IXYZ'') ?ps"
    unfolding list_all_iff using pauli_char_valid by auto
  have xs: "rev (map (\<lambda>c. c = CHR ''X'' \<or> c = CHR ''Y'') ?ps) = take n row"
    using assms(1) by (simp add: rev_map [symmetric] o_def pauli_char_x map_nth_take)
  have zs: "rev (map (\<lambda>c. c = CHR ''Z'' \<or> c = CHR ''Y'') ?ps) = drop n row"
    using assms(1) by (simp add: rev_map [symmetric] o_def pauli_char_z map_nth_drop)
  have "from_label (to_label n row ph) = Inr (take n row @ drop n row, ph)"
    unfolding from_label_def to_label_def
    by (simp only: list.case xs zs ne valid) (simp split: if_splits)
  then show ?thesis by simp
qed

lemma from_label_list_to_label:
  assumes "length rows = length phs"
    and "\<forall>row\<in>set rows. length row = 2 * n" and "0 < n"
  shows "from_label_list (map2 (to_label n) rows phs) = Inr (zip rows phs)"
  using assms
  by (induction rows phs rule: list_induct2) (simp_all add: from_label_to_label)

lemma ncols_uniform:
  "\<forall>row\<in>set rows. length row = m \<Longrightarrow> rows \<noteq> [] \<Longrightarrow> ncols rows = m"
  by (cases rows) (simp_all add: ncols_def)

lemma from_labels_to_labels:
  assumes "length rows = length phs"
    and "\<forall>row\<in>set rows. length row = 2 * n" and "0 < n"
  shows "from_labels (to_labels \<lparr>array = rows, phase = phs, n_qubits = n\<rparr>)
           = Inr (StabilizerTable_init rows (Some phs))"
proof -
  have rect: "list_all (\<lambda>rp. length (fst rp) = ncols rows) (zip rows phs)"
  proof (cases "rows = []")
    case True
    then show ?thesis by simp
  next
    case False
    with assms(2) have "ncols rows = 2 * n" by (rule ncols_uniform)
    with assms(2) show ?thesis
      unfolding list_all_iff by (auto dest: set_zip_leftD)
  qed
  show ?thesis
    using assms rect
    by (simp add: from_labels_def to_labels_def from_label_list_to_label)
qed

lemma table_slice_labels:
  assumes "length rows = length phs"
    and "\<forall>row\<in>set rows. length row = 2 * n" and "0 < n"
  shows "from_labels (to_labels (StabilizerTable_init rows (Some phs)))
           = Inr (StabilizerTable_init rows (Some phs))"
proof (cases "rows = []")
  case True
  with assms(1) show ?thesis
    by (simp add: StabilizerTable_init_def to_labels_def from_labels_def ncols_def)
next
  case False
  with assms(2) have "ncols rows = 2 * n" by (rule ncols_uniform)
  then have "StabilizerTable_init rows (Some phs) = \<lparr>array = rows, phase = phs, n_qubits = n\<rparr>"
    by (simp add: StabilizerTable_init_def)
  with from_labels_to_labels [OF assms] show ?thesis by simp
qed

text \<open>
  C6. For every Clifford whose table has the shape of an \<open>N\<close>-qubit tableau (\<open>2N\<close> rows
  of \<open>2N\<close> bits, \<open>2N\<close> phase bits), loading its dictionary form succeeds and gives an
  element equal to the original: \<^verbatim>\<open>from_dict(to_dict(elem)) == elem\<close>.
\<close>

theorem from_dict_to_dict:
  assumes "wf_clifford s c"
  shows "\<exists>c' s'. from_dict ag s (to_dict s c) = Inr (c', s') \<and> Clifford_eq s' c' c"
proof -
  let ?t = "s ! table c"
  let ?n = "n_qubits ?t"
  let ?a = "array ?t"
  let ?p = "phase ?t"
  from assms have ref: "table c < length s"
    and rows: "length ?a = 2 * ?n"
    and cols: "\<forall>row\<in>set ?a. length row = 2 * ?n"
    and phs: "length ?p = 2 * ?n"
    and dim: "dims c = replicate ?n 2"
    by (simp_all add: wf_clifford_def wf_table_def list_all_iff)
  let ?new = "StabilizerTable_init ?a (Some ?p)"
  have whole_a: "take ?n ?a @ take ?n (drop ?n ?a) = ?a"
    using rows by (simp add: take_add [symmetric] mult_2)
  have whole_p: "take ?n ?p @ take ?n (drop ?n ?p) = ?p"
    using phs by (simp add: take_add [symmetric] mult_2)
  have nq: "ncols ?a div 2 = ?n"
  proof (cases "?a = []")
    case True
    with rows show ?thesis by (simp add: ncols_def)
  next
    case False
    with cols have "ncols ?a = 2 * ?n" by (rule ncols_uniform)
    then show ?thesis by simp
  qed
  have run: "from_dict ag s (to_dict s c)
      = Inr (\<lparr>table = length s, dims = replicate ?n 2, op_qargs = None\<rparr>, s @ [?new])"
  proof (cases "?n = 0")
    case True
    with rows phs show ?thesis
      by (simp add: from_dict_def to_dict_def stabilizer_def destabilizer_def table_slice_def
          clifford_n_qubits_def to_labels_def from_labels_def table_add_def
          StabilizerTable_init_def Clifford_init_DTable init_new_table_result table_size_def
          ncols_def)
  next
    case False
    then have pos: "0 < ?n" by simp
    let ?da = "take ?n ?a" and ?dp = "take ?n ?p"
    let ?sa = "take ?n (drop ?n ?a)" and ?sp = "take ?n (drop ?n ?p)"
    have dl: "length ?da = length ?dp" and sl: "length ?sa = length ?sp"
      using rows phs by simp_all
    have dc: "\<forall>row\<in>set ?da. length row = 2 * ?n"
      using cols by (auto dest: in_set_takeD)
    have sc: "\<forall>row\<in>set ?sa. length row = 2 * ?n"
      using cols by (auto dest: in_set_takeD in_set_dropD)
    have dne: "?da \<noteq> []" and sne: "?sa \<noteq> []"
      using rows pos by auto
    have dn: "n_qubits (StabilizerTable_init ?da (Some ?dp)) = ?n"
      using ncols_uniform [OF dc dne] by (simp add: StabilizerTable_init_def)
    have sn: "n_qubits (StabilizerTable_init ?sa (Some ?sp)) = ?n"
      using ncols_uniform [OF sc sne] by (simp add: StabilizerTable_init_def)
    have d: "from_labels (to_labels (destabilizer s c)) = Inr (StabilizerTable_init ?da (Some ?dp))"
      unfolding destabilizer_def table_slice_def clifford_n_qubits_def
      using table_slice_labels [OF dl dc pos] by simp
    have st: "from_labels (to_labels (stabilizer s c)) = Inr (StabilizerTable_init ?sa (Some ?sp))"
      unfolding stabilizer_def table_slice_def clifford_n_qubits_def
      using table_slice_labels [OF sl sc pos] by (simp add: mult_2)
    have add: "table_add (StabilizerTable_init ?da (Some ?dp)) (StabilizerTable_init ?sa (Some ?sp))
        = Inr ?new"
      unfolding table_add_def using dn sn whole_a whole_p
      by (simp add: StabilizerTable_init_def)
    have shape: "table_size ?new = 2 * n_qubits ?new"
      using rows nq by (simp add: StabilizerTable_init_def table_size_def)
    have nn: "n_qubits ?new = ?n"
      using nq by (simp add: StabilizerTable_init_def)
    have init: "Clifford_init ag s (DTable ?new)
        = Inr (\<lparr>table = length s, dims = replicate ?n 2, op_qargs = None\<rparr>, s @ [?new])"
      using shape nn by (simp add: Clifford_init_DTable init_new_table_result)
        (simp add: StabilizerTable_init_def)
    show ?thesis
      unfolding from_dict_def to_dict_def
      by (simp add: d st add init)
  qed
  show ?thesis
    unfolding run using ref dim
    by (simp add: Clifford_eq_def nth_append StabilizerTable_init_def)
qed

theorem from_dict_to_dict_witness:
  "to_dict [CX_table] \<lparr>table = 0, dims = [2, 2], op_qargs = None\<rparr>
     = [''stabilizer'' \<mapsto> [''+IZ'', ''+ZZ''], ''destabilizer'' \<mapsto> [''+XX'', ''-XI'']]
   \<and> from_dict no_gates [CX_table]
        [''stabilizer'' \<mapsto> [''+IZ'', ''+ZZ''], ''destabilizer'' \<mapsto> [''+XX'', ''-XI'']]
     = Inr (\<lparr>table = 1, dims = [2, 2], op_qargs = None\<rparr>, [CX_table, CX_table])"
proof -
  let ?c = "\<lparr>table = 0, dims = [2, 2], op_qargs = None\<rparr>"
  have wf: "wf_clifford [CX_table] ?c"
    by (simp add: wf_clifford_def wf_table_def CX_table_def numeral_2_eq_2)
  have td: "to_dict [CX_table] ?c
     = [''stabilizer'' \<mapsto> [''+IZ'', ''+ZZ''], ''destabilizer'' \<mapsto> [''+XX'', ''-XI'']]"
    by (simp add: to_dict_def stabilizer_def destabilizer_def table_slice_def to_labels_def
        to_label_def pauli_char_def clifford_n_qubits_def StabilizerTable_init_def CX_table_def
        ncols_def)
  from from_dict_to_dict [OF wf, of no_gates] obtain c' s' where
    r: "from_dict no_gates [CX_table] (to_dict [CX_table] ?c) = Inr (c', s')"
    and e: "Clifford_eq s' c' ?c"
    by blast
  have fd: "from_dict no_gates [CX_table]
        [''stabilizer'' \<mapsto> [''+IZ'', ''+ZZ''], ''destabilizer'' \<mapsto> [''+XX'', ''-XI'']]
     = Inr (\<lparr>table = 1, dims = [2, 2], op_qargs = None\<rparr>, [CX_table, CX_table])"
    by (simp add: from_dict_def from_labels_def from_label_def table_add_def
        Clifford_init_DTable init_new_table_result StabilizerTable_init_def CX_table_def
        table_size_def ncols_def)
  from r e td fd show ?thesis by simp
qed

subsection \<open>Random Cliffords\<close>

lemma init_new_table_two_stores:
  "(\<exists>e. init_new_table s1 t = Inl e \<and> init_new_table s2 t = Inl e)
   \<or> (\<exists>c1 s1' c2 s2'. init_new_table s1 t = Inr (c1, s1') \<and> init_new_table s2 t = Inr (c2, s2')
        \<and> array (s1' ! table c1) = array (s2' ! table c2)
        \<and> phase (s1' ! table c1) = phase (s2' ! table c2))"
  by (simp add: init_new_table_result)

text \<open>
  C7. For every qubit count \<open>n\<close> and every integer seed \<open>S\<close>, two calls
  \<^verbatim>\<open>random_clifford(n, seed=S)\<close> give the same result, whatever the state of the
  operating system's entropy (\<open>g1\<close>, \<open>g2\<close>) and whatever tables exist at the time of
  each call (\<open>s1\<close>, \<open>s2\<close>): both raise the same error, or both return an element, with
  equal tableau arrays and equal phase vectors.
\<close>

theorem random_clifford_deterministic:
  "(\<exists>e. random_clifford R symplectic ag g1 s1 n (Some S) = Inl e
        \<and> random_clifford R symplectic ag g2 s2 n (Some S) = Inl e)
   \<or> (\<exists>c1 s1' c2 s2'.
        random_clifford R symplectic ag g1 s1 n (Some S) = Inr (c1, s1')
        \<and> random_clifford R symplectic ag g2 s2 n (Some S) = Inr (c2, s2')
        \<and> array (s1' ! table c1) = array (s2' ! table c2)
        \<and> phase (s1' ! table c1) = phase (s2' ! table c2))"
proof -
  obtain bits rng1 where b: "randint_list (randint R) (2 * n) (seed_state R S) = (bits, rng1)"
    by (cases "randint_list (randint R) (2 * n) (seed_state R S)")
  obtain rint rng2 where r: "randrange R rng1 (random_clifford_size n) = (rint, rng2)"
    by (cases "randrange R rng1 (random_clifford_size n)")
  let ?symp = "symplectic rint n"
  show ?thesis
  proof (cases "length ?symp < 2 * n \<or> \<not> list_all (\<lambda>row. length row = 2 * n) (take (2 * n) ?symp)")
    case True
    then show ?thesis
      by (auto simp add: random_clifford_def b r Let_def)
  next
    case False
    then show ?thesis
      using init_new_table_two_stores [of s1 _ s2]
      by (simp add: random_clifford_def b r Let_def Clifford_init_DTable)
  qed
qed

text \<open>
  A run on one qubit with the counter generator: with the seed 1 the result is the
  identity tableau with the phase bits 1 and 0, whatever the entropy \<open>g\<close>. Without a
  seed the generator starts from the state of the operating system and the result
  depends on it; the statement above is about calls that give a seed.
\<close>

lemma random_clifford_example:
  "random_clifford counter_rng identity_symplectic no_gates g [] 1 (Some 1)
     = Inr (clifford_at 0, [I_table\<lparr>phase := [True, False]\<rparr>])"
  by (simp add: random_clifford_def counter_rng_def identity_symplectic_def
      random_clifford_size_def eye_def Clifford_init_def init_new_table_def alloc_def
      validate_shape_def StabilizerTable_init_def table_size_def ncols_def clifford_at_def
      I_table_def Let_def numeral_2_eq_2)

lemma random_clifford_unseeded_example:
  "random_clifford counter_rng identity_symplectic no_gates 0 [] 1 None
     = Inr (clifford_at 0, [I_table\<lparr>phase := [False, True]\<rparr>])
   \<and> random_clifford counter_rng identity_symplectic no_gates 7 [] 1 None
     = Inr (clifford_at 0, [I_table\<lparr>phase := [True, False]\<rparr>])"
  by (simp add: random_clifford_def counter_rng_def identity_symplectic_def
      random_clifford_size_def eye_def Clifford_init_def init_new_table_def alloc_def
      validate_shape_def StabilizerTable_init_def table_size_def ncols_def clifford_at_def
      I_table_def Let_def numeral_2_eq_2)

end
